theory Spec2Isabelle
  imports Complex_Main "HOL-Library.Multiset"
begin

section \<open>Data model\<close>

text \<open>
  The simulator keeps a list of \<open>Vegetable\<close> objects (the Load Model) and recomputes
  every derived value from it. JavaScript numbers are modelled as follows: the integer
  fields of a vegetable (quantity, temperatures, shelf life in days) are \<open>int\<close>; the
  results of the impact estimate, which multiply by decimal constants and divide, are
  exact rationals (\<open>rat\<close>), so rounding of IEEE doubles is not modelled.
\<close>

datatype level = low | medium | high

record Temp =
  minT :: int
  maxT :: int

record Vegetable =
  veg_id :: string
  name :: string
  quantity :: int
  ethyleneProduction :: level
  ethyleneSensitivity :: level
  idealTemp :: Temp
  shelfLife :: int

text \<open>An entry of \<open>VEGETABLE_DATABASE\<close>: a vegetable without \<open>id\<close> and \<open>quantity\<close>.\<close>

record VegetableData =
  data_name :: string
  data_ethyleneProduction :: level
  data_ethyleneSensitivity :: level
  data_idealTemp :: Temp
  data_shelfLife :: int

definition entry :: "string \<Rightarrow> level \<Rightarrow> level \<Rightarrow> int \<Rightarrow> int \<Rightarrow> int \<Rightarrow> string \<times> VegetableData" where
  "entry n p s lo hi d =
     (n, \<lparr>data_name = n, data_ethyleneProduction = p, data_ethyleneSensitivity = s,
          data_idealTemp = \<lparr>minT = lo, maxT = hi\<rparr>, data_shelfLife = d\<rparr>)"

definition VEGETABLE_DATABASE :: "(string \<times> VegetableData) list" where
  "VEGETABLE_DATABASE =
    [entry ''Carrots'' low medium 0 2 21,
     entry ''Cabbage'' low medium 0 2 20,
     entry ''Broccoli'' low high 0 2 7,
     entry ''Cauliflower'' low high 0 2 10,
     entry ''Lettuce'' low high 0 2 10,
     entry ''Celery'' low high 0 2 14,
     entry ''Chinese cabbage'' low medium 0 2 14,
     entry ''Eggplant'' low high 10 12 7,
     entry ''Tomatoes'' high medium 12 15 7,
     entry ''Okra'' low high 7 10 5,
     entry ''Ampalaya'' low medium 10 12 5,
     entry ''Sitaw'' low high 7 10 5,
     entry ''Patola'' low medium 10 12 7,
     entry ''Kalabasa'' low low 10 12 30,
     entry ''Pechay'' low medium 0 2 7,
     entry ''Potatoes'' low low 4 8 60,
     entry ''Onions'' low low 0 4 90,
     entry ''Peppers'' low medium 7 10 14]"

section \<open>Load Model mutations (VegetableInput)\<close>

text \<open>
  \<open>addVegetable\<close> reads the selected name from component state and draws the new id from
  \<open>Math.random\<close>; both are parameters here. The function returns the Load Model after the
  call: an early \<open>return\<close> leaves it as it was.
\<close>

definition addVegetable :: "Vegetable list \<Rightarrow> string \<Rightarrow> string \<Rightarrow> Vegetable list" where
  "addVegetable vegs selectedVegetable newId =
     (if selectedVegetable = [] \<or> find (\<lambda>v. name v = selectedVegetable) vegs \<noteq> None then vegs
      else case map_of VEGETABLE_DATABASE selectedVegetable of
             None \<Rightarrow> vegs
           | Some vegetableData \<Rightarrow>
               vegs @ [\<lparr>veg_id = newId, name = data_name vegetableData, quantity = 1,
                        ethyleneProduction = data_ethyleneProduction vegetableData,
                        ethyleneSensitivity = data_ethyleneSensitivity vegetableData,
                        idealTemp = data_idealTemp vegetableData,
                        shelfLife = data_shelfLife vegetableData\<rparr>])"

definition updateQuantity :: "Vegetable list \<Rightarrow> string \<Rightarrow> int \<Rightarrow> Vegetable list" where
  "updateQuantity vegs i change =
     filter (\<lambda>v. quantity v > 0)
       (map (\<lambda>v. if veg_id v = i then v\<lparr>quantity := max 0 (quantity v + change)\<rparr> else v) vegs)"

section \<open>Transport Recommendation (CompatibilityAnalysis)\<close>

datatype TransportType = refrigerated | ventilated | controlled_atmosphere

record TransportRecommendation =
  rec_type :: TransportType
  rec_temperature :: Temp
  humidity :: string
  ventilation :: bool
  separation :: "string list"

text \<open>
  \<open>Math.max(...xs)\<close> and \<open>Math.min(...xs)\<close> are only called on a non-empty array (the empty
  Load Model returns before them), so they are defined on non-empty lists only.
\<close>

fun Math_max :: "int list \<Rightarrow> int" where
  "Math_max (x # xs) = foldl max x xs"

fun Math_min :: "int list \<Rightarrow> int" where
  "Math_min (x # xs) = foldl min x xs"

fun join :: "string \<Rightarrow> string list \<Rightarrow> string" where
  "join sep [] = []"
| "join sep [s] = s"
| "join sep (s # t # ss) = s @ sep @ join sep (t # ss)"

definition getTransportRecommendation :: "Vegetable list \<Rightarrow> TransportRecommendation" where
  "getTransportRecommendation vegs =
     (if length vegs = 0 then
        \<lparr>rec_type = ventilated, rec_temperature = \<lparr>minT = 10, maxT = 15\<rparr>,
         humidity = ''85-90%'', ventilation = True, separation = []\<rparr>
      else
        let minTemp = Math_max (map (\<lambda>v. minT (idealTemp v)) vegs);
            maxTemp = Math_min (map (\<lambda>v. maxT (idealTemp v)) vegs);
            highEthyleneProducers = filter (\<lambda>v. ethyleneProduction v = high) vegs;
            highEthyleneSensitive = filter (\<lambda>v. ethyleneSensitivity v = high) vegs;
            needsSeparation = (length highEthyleneProducers > 0 \<and> length highEthyleneSensitive > 0)
        in \<lparr>rec_type = (if minTemp \<le> 4 then refrigerated else controlled_atmosphere),
            rec_temperature = \<lparr>minT = max 0 minTemp,
                                maxT = (if maxTemp > minTemp then maxTemp else minTemp + 2)\<rparr>,
            humidity = ''85-95%'', ventilation = True,
            separation = (if needsSeparation then
                            [''Separate: '' @ join '', '' (map name highEthyleneProducers),
                             ''From: '' @ join '', '' (map name highEthyleneSensitive)]
                          else [])\<rparr>)"

section \<open>Impact Estimator (ImpactMetrics)\<close>

record Scenario =
  wastePercentage :: rat
  shelfLifeDays :: rat
  estimatedLoss :: rat

record Savings =
  wasteReduction :: rat
  shelfLifeExtension :: rat
  costSavings :: rat

record ImpactCalculation =
  withoutShelfLife :: Scenario
  withShelfLife :: Scenario
  savings :: Savings

definition hasEthyleneIssues :: "Vegetable list \<Rightarrow> Vegetable \<Rightarrow> bool" where
  "hasEthyleneIssues vegs veg =
     list_ex (\<lambda>other. veg_id other \<noteq> veg_id veg \<and>
        ((ethyleneProduction veg = high \<and> ethyleneSensitivity other = high) \<or>
         (ethyleneProduction other = high \<and> ethyleneSensitivity veg = high))) vegs"

definition hasTemperatureIssues :: "Vegetable list \<Rightarrow> Vegetable \<Rightarrow> bool" where
  "hasTemperatureIssues vegs veg =
     list_ex (\<lambda>other. veg_id other \<noteq> veg_id veg \<and>
        (maxT (idealTemp veg) < minT (idealTemp other) \<or>
         maxT (idealTemp other) < minT (idealTemp veg))) vegs"

definition wasteMultiplier :: "Vegetable list \<Rightarrow> Vegetable \<Rightarrow> rat" where
  "wasteMultiplier vegs veg =
     (let m0 = 0.25;
          m1 = (if hasEthyleneIssues vegs veg then m0 + 0.20 else m0);
          m2 = (if hasTemperatureIssues vegs veg then m1 + 0.15 else m1)
      in m2)"

definition baselineWaste :: "Vegetable list \<Rightarrow> rat" where
  "baselineWaste vegs =
     foldl (\<lambda>total veg. total + of_int (quantity veg) * min (wasteMultiplier vegs veg) 0.70) 0 vegs"

definition optimizedWaste :: "Vegetable list \<Rightarrow> rat" where
  "optimizedWaste vegs = foldl (\<lambda>total veg. total + of_int (quantity veg) * 0.10) 0 vegs"

definition totalQuantity :: "Vegetable list \<Rightarrow> int" where
  "totalQuantity vegs = foldl (\<lambda>sum veg. sum + quantity veg) 0 vegs"

definition avgShelfLife :: "Vegetable list \<Rightarrow> rat" where
  "avgShelfLife vegs =
     of_int (foldl (\<lambda>sum veg. sum + shelfLife veg) 0 vegs) / of_nat (length vegs)"

definition calculateImpact :: "Vegetable list \<Rightarrow> rat \<Rightarrow> ImpactCalculation" where
  "calculateImpact vegs unitCost =
     (if length vegs = 0 then
        \<lparr>withoutShelfLife = \<lparr>wastePercentage = 0, shelfLifeDays = 0, estimatedLoss = 0\<rparr>,
         withShelfLife = \<lparr>wastePercentage = 0, shelfLifeDays = 0, estimatedLoss = 0\<rparr>,
         savings = \<lparr>wasteReduction = 0, shelfLifeExtension = 0, costSavings = 0\<rparr>\<rparr>
      else
        let tq = of_int (totalQuantity vegs);
            baselineLoss = baselineWaste vegs * unitCost;
            optimizedLoss = optimizedWaste vegs * unitCost
        in \<lparr>withoutShelfLife =
              \<lparr>wastePercentage = (if tq > 0 then (baselineWaste vegs / tq) * 100 else 0),
               shelfLifeDays = max 1 (avgShelfLife vegs * 0.7),
               estimatedLoss = baselineLoss\<rparr>,
            withShelfLife =
              \<lparr>wastePercentage = (if tq > 0 then (optimizedWaste vegs / tq) * 100 else 0),
               shelfLifeDays = avgShelfLife vegs * 1.2,
               estimatedLoss = optimizedLoss\<rparr>,
            savings =
              \<lparr>wasteReduction =
                 (if tq > 0 then ((baselineWaste vegs - optimizedWaste vegs) / tq) * 100 else 0),
               shelfLifeExtension = (avgShelfLife vegs * 1.2) - (avgShelfLife vegs * 0.7),
               costSavings = baselineLoss - optimizedLoss\<rparr>\<rparr>)"

section \<open>Layout Heuristic (TruckVisualizer)\<close>

record Position =
  pos_x :: int
  pos_y :: int
  width :: int
  height :: int

record LoadZone =
  zone_id :: string
  vegetables :: "Vegetable list"
  temperature :: string
  position :: Position
  color :: string

text \<open>Decimal rendering of an integer, as a template literal does it.\<close>

fun string_of_nat :: "nat \<Rightarrow> string" where
  "string_of_nat n =
     (if n < 10 then [''0123456789'' ! n]
      else string_of_nat (n div 10) @ [''0123456789'' ! (n mod 10)])"

definition string_of_int :: "int \<Rightarrow> string" where
  "string_of_int i =
     (if i < 0 then CHR ''-'' # string_of_nat (nat (- i)) else string_of_nat (nat i))"

definition tempKey :: "Vegetable \<Rightarrow> string" where
  "tempKey veg =
     string_of_int (minT (idealTemp veg)) @ ''-'' @ string_of_int (maxT (idealTemp veg))"

text \<open>
  The \<open>Record<string, Vegetable[]>\<close> built by \<open>reduce\<close> is an association list in insertion
  order, which is the order \<open>Object.entries\<close> enumerates keys that are not array indices
  (every key contains a \<open>-\<close>).
\<close>

definition groupStep :: "(string \<times> Vegetable list) list \<Rightarrow> Vegetable \<Rightarrow> (string \<times> Vegetable list) list" where
  "groupStep groups veg =
     (let k = tempKey veg;
          groups1 = (if map_of groups k = None then groups @ [(k, [])] else groups)
      in map (\<lambda>(k', vs). if k' = k then (k', vs @ [veg]) else (k', vs)) groups1)"

definition temperatureGroups :: "Vegetable list \<Rightarrow> (string \<times> Vegetable list) list" where
  "temperatureGroups vegs = foldl groupStep [] vegs"

text \<open>The degree sign is the single code unit U+00B0.\<close>

definition degC :: string where
  "degC = [CHR 0xB0, CHR ''C'']"

definition mkZone :: "nat \<Rightarrow> Vegetable list \<Rightarrow> string \<Rightarrow> int \<Rightarrow> int \<Rightarrow> string \<Rightarrow> LoadZone" where
  "mkZone zoneIndex vs tempRange px py c =
     \<lparr>zone_id = ''zone-'' @ string_of_nat zoneIndex, vegetables = vs,
      temperature = tempRange @ degC,
      position = \<lparr>pos_x = px, pos_y = py, width = 180, height = 100\<rparr>, color = c\<rparr>"

text \<open>
  One iteration of the \<open>forEach\<close> over the temperature groups; the state is the array
  \<open>zones\<close> and the counter \<open>zoneIndex\<close>. Each \<open>zones.length\<close> is read when its object
  literal is built, before the push.
\<close>

definition zoneStep :: "LoadZone list \<times> nat \<Rightarrow> string \<times> Vegetable list \<Rightarrow> LoadZone list \<times> nat" where
  "zoneStep st ent =
     (case st of (zones, zoneIndex) \<Rightarrow> case ent of (tempRange, veggies) \<Rightarrow>
        let highEthyleneProducers = filter (\<lambda>v. ethyleneProduction v = high) veggies;
            ethyleneSensitive = filter (\<lambda>v. ethyleneSensitivity v = high) veggies;
            others = filter (\<lambda>v. ethyleneProduction v \<noteq> high \<and> ethyleneSensitivity v \<noteq> high) veggies
        in if length highEthyleneProducers > 0 \<and> length ethyleneSensitive > 0 then
             let zones1 = zones @ [mkZone zoneIndex highEthyleneProducers tempRange
                                     10 (10 + int (length zones) * 120)
                                     ''bg-warning-orange/20 border-warning-orange/40''];
                 zones2 = zones1 @ [mkZone (zoneIndex + 1) ethyleneSensitive tempRange
                                     210 (10 + int (length zones1) * 120)
                                     ''bg-fresh-green-light/40 border-fresh-green/40'']
             in if length others > 0 then
                  (zones2 @ [mkZone (zoneIndex + 2) others tempRange
                               410 (10 + int (length zones2) * 120)
                               ''bg-secondary/60 border-border''], zoneIndex + 3)
                else (zones2, zoneIndex + 2)
           else
             (zones @ [mkZone zoneIndex veggies tempRange
                         (10 + (int (length zones) mod 3) * 200)
                         (10 + (int (length zones) div 3) * 120)
                         ''bg-fresh-green-light/40 border-fresh-green/40''], zoneIndex + 1))"

definition optimizeLoading :: "Vegetable list \<Rightarrow> LoadZone list" where
  "optimizeLoading vegs =
     (if length vegs = 0 then [] else fst (foldl zoneStep ([], 0) (temperatureGroups vegs)))"

section \<open>Planning parameters and aggregate status (Index page)\<close>

datatype TruckType = truck_ambient | truck_refrigerated | truck_ventilated
datatype TruckSize = small | medium_size | large
datatype TravelTime = early_morning | daytime | evening | night

record ScenarioMeta =
  truckType :: TruckType
  truckSize :: TruckSize
  truckQuantity :: int
  bestTravelTime :: TravelTime
  autoTruckQuantity :: bool
  routeDurationHours :: rat
  ambientDeltaC :: rat

definition getTotalQuantity :: "Vegetable list \<Rightarrow> int" where
  "getTotalQuantity vegs = foldl (\<lambda>sum veg. sum + quantity veg) 0 vegs"

fun capacityBySize :: "TruckSize \<Rightarrow> int" where
  "capacityBySize small = 100"
| "capacityBySize medium_size = 200"
| "capacityBySize large = 400"

definition recommendedTruckCount :: "Vegetable list \<Rightarrow> ScenarioMeta \<Rightarrow> int" where
  "recommendedTruckCount vegs meta =
     max 1 \<lceil>(of_int (getTotalQuantity vegs) :: rat) / of_int (capacityBySize (truckSize meta))\<rceil>"

definition getTotalCapacity :: "Vegetable list \<Rightarrow> ScenarioMeta \<Rightarrow> int" where
  "getTotalCapacity vegs meta =
     capacityBySize (truckSize meta) *
       (if autoTruckQuantity meta
        then max 1 \<lceil>(of_int (getTotalQuantity vegs) :: rat) / of_int (capacityBySize (truckSize meta))\<rceil>
        else max 1 (truckQuantity meta))"

datatype status = neutral | incompatible | compatible

definition ethyleneConflict :: "Vegetable \<Rightarrow> Vegetable \<Rightarrow> bool" where
  "ethyleneConflict veg1 veg2 =
     ((ethyleneProduction veg1 = high \<and> ethyleneSensitivity veg2 = high) \<or>
      (ethyleneProduction veg2 = high \<and> ethyleneSensitivity veg1 = high))"

text \<open>
  The two nested \<open>for\<close> loops of \<open>getCompatibilityStatus\<close>, by index: each returns whether
  the early \<open>return\<close> of the loop body was taken.
\<close>

function loop_j :: "Vegetable list \<Rightarrow> nat \<Rightarrow> nat \<Rightarrow> bool" where
  "loop_j vegs i j =
     (if j < length vegs then
        (if ethyleneConflict (vegs ! i) (vegs ! j) then True else loop_j vegs i (j + 1))
      else False)"
  by pat_completeness auto
termination
  by (relation "measure (\<lambda>(vegs, i, j). length vegs - j)") auto

function loop_i :: "Vegetable list \<Rightarrow> nat \<Rightarrow> bool" where
  "loop_i vegs i =
     (if i < length vegs then
        (if loop_j vegs i (i + 1) then True else loop_i vegs (i + 1))
      else False)"
  by pat_completeness auto
termination
  by (relation "measure (\<lambda>(vegs, i). length vegs - i)") auto

definition getCompatibilityStatus :: "Vegetable list \<Rightarrow> status \<times> string" where
  "getCompatibilityStatus vegs =
     (if length vegs < 2 then (neutral, ''Add more vegetables'')
      else if loop_i vegs 0 then (incompatible, ''Compatibility issues detected'')
      else (compatible, ''All vegetables compatible''))"

text \<open>
  The value shown in the truck quantity field: derived from the load when
  \<open>autoTruckQuantity\<close> is set, the manual \<open>truckQuantity\<close> otherwise.
\<close>

definition truckQuantityValue :: "Vegetable list \<Rightarrow> ScenarioMeta \<Rightarrow> int" where
  "truckQuantityValue vegs meta =
     (if autoTruckQuantity meta
      then max 1 \<lceil>(of_int (getTotalQuantity vegs) :: rat) / of_int (capacityBySize (truckSize meta))\<rceil>
      else truckQuantity meta)"

text \<open>The initial planning parameters of the page.\<close>

definition defaultMeta :: ScenarioMeta where
  "defaultMeta =
     \<lparr>truckType = truck_refrigerated, truckSize = medium_size, truckQuantity = 1,
      bestTravelTime = early_morning, autoTruckQuantity = True,
      routeDurationHours = 3, ambientDeltaC = 4\<rparr>"

declare loop_j.simps [simp del] loop_i.simps [simp del]

section \<open>Notions of the specification\<close>

text \<open>The maximum over all items of \<open>idealTemp.min\<close> and the minimum of \<open>idealTemp.max\<close>.\<close>

definition minTempOf :: "Vegetable list \<Rightarrow> int" where
  "minTempOf vegs = Max ((\<lambda>v. minT (idealTemp v)) ` set vegs)"

definition maxTempOf :: "Vegetable list \<Rightarrow> int" where
  "maxTempOf vegs = Min ((\<lambda>v. maxT (idealTemp v)) ` set vegs)"

text \<open>Two temperature ranges that do not overlap.\<close>

definition temperatureConflict :: "Vegetable \<Rightarrow> Vegetable \<Rightarrow> bool" where
  "temperatureConflict veg1 veg2 =
     (maxT (idealTemp veg1) < minT (idealTemp veg2) \<or> maxT (idealTemp veg2) < minT (idealTemp veg1))"

text \<open>Some unordered pair of items (positions \<open>i < j\<close>) has an ethylene conflict.\<close>

definition somePairConflicts :: "Vegetable list \<Rightarrow> bool" where
  "somePairConflicts vegs =
     (\<exists>j \<in> {0..<length vegs}. \<exists>i \<in> {0..<j}. ethyleneConflict (vegs ! i) (vegs ! j))"

text \<open>\<open>ceil(n / capacity)\<close> on exact rationals.\<close>

definition ceilDiv :: "int \<Rightarrow> int \<Rightarrow> int" where
  "ceilDiv n capacity = \<lceil>(of_int n :: rat) / of_int capacity\<rceil>"

text \<open>All items of all zones, in zone order, with repetitions.\<close>

definition zoneItems :: "LoadZone list \<Rightarrow> Vegetable list" where
  "zoneItems zones = concat (map vegetables zones)"

text \<open>No item is both a high ethylene producer and highly ethylene sensitive.\<close>

definition rolesExclusive :: "Vegetable list \<Rightarrow> bool" where
  "rolesExclusive vegs =
     list_all (\<lambda>v. \<not> (ethyleneProduction v = high \<and> ethyleneSensitivity v = high)) vegs"

section \<open>Sample load items\<close>

definition mkVegetable :: "string \<Rightarrow> string \<Rightarrow> int \<Rightarrow> level \<Rightarrow> level \<Rightarrow> int \<Rightarrow> int \<Rightarrow> int \<Rightarrow> Vegetable" where
  "mkVegetable i n q p s lo hi d =
     \<lparr>veg_id = i, name = n, quantity = q, ethyleneProduction = p, ethyleneSensitivity = s,
      idealTemp = \<lparr>minT = lo, maxT = hi\<rparr>, shelfLife = d\<rparr>"

text \<open>Catalog items as \<open>addVegetable\<close> creates them, with made-up ids.\<close>

definition onions :: Vegetable where "onions = mkVegetable ''v1'' ''Onions'' 1 low low 0 4 90"
definition potatoes :: Vegetable where "potatoes = mkVegetable ''v2'' ''Potatoes'' 1 low low 4 8 60"
definition tomatoes :: Vegetable where "tomatoes = mkVegetable ''v3'' ''Tomatoes'' 1 high medium 12 15 7"
definition eggplant :: Vegetable where "eggplant = mkVegetable ''v4'' ''Eggplant'' 1 low high 10 12 7"
definition cabbage :: Vegetable where "cabbage = mkVegetable ''v5'' ''Cabbage'' 1 low medium 0 2 20"
definition carrots :: Vegetable where "carrots = mkVegetable ''v6'' ''Carrots'' 1 low medium 0 2 21"

text \<open>
  Items that are not in the catalog but are well-formed \<open>Vegetable\<close> objects, as a shared
  link or a saved scenario can carry them: one that is both a high producer and highly
  sensitive, one stored below zero, a large consignment, and one that keeps for a
  single day.
\<close>

definition highHigh :: Vegetable where "highHigh = mkVegetable ''v7'' ''Produce'' 1 high high 0 2 7"
definition frozenPeas :: Vegetable where "frozenPeas = mkVegetable ''v8'' ''Frozen peas'' 1 low low (- 18) (- 15) 300"
definition bulkPotatoes :: Vegetable where "bulkPotatoes = mkVegetable ''v9'' ''Potatoes'' 250 low low 4 8 60"
definition sprouts :: Vegetable where "sprouts = mkVegetable ''v10'' ''Sprouts'' 1 low low 0 2 1"

section \<open>Empty Load Model\<close>

text \<open>
  C8. On the empty Load Model the Impact Estimator returns the all-zero structure, the
  Transport Recommendation returns the default envelope (10 to 15 degrees, ventilated,
  no separation instructions) and the Layout Heuristic returns no zone. All three
  functions are total, so none of them fails.
\<close>

theorem empty_load_defaults:
  "calculateImpact [] unitCost =
     \<lparr>withoutShelfLife = \<lparr>wastePercentage = 0, shelfLifeDays = 0, estimatedLoss = 0\<rparr>,
      withShelfLife = \<lparr>wastePercentage = 0, shelfLifeDays = 0, estimatedLoss = 0\<rparr>,
      savings = \<lparr>wasteReduction = 0, shelfLifeExtension = 0, costSavings = 0\<rparr>\<rparr>
   \<and> getTransportRecommendation [] =
       \<lparr>rec_type = ventilated, rec_temperature = \<lparr>minT = 10, maxT = 15\<rparr>,
        humidity = ''85-90%'', ventilation = True, separation = []\<rparr>
   \<and> optimizeLoading [] = []"
  by (simp add: calculateImpact_def getTransportRecommendation_def optimizeLoading_def)

section \<open>Transport Recommendation\<close>

lemma Math_max_eq: "xs \<noteq> [] \<Longrightarrow> Math_max xs = Max (set xs)"
proof (cases xs)
  case (Cons a list)
  have "fold max list a = Max (set (a # list))" by (rule Max.set_eq_fold [symmetric])
  moreover have "foldl max a list = fold max list a"
    by (simp add: foldl_conv_fold max.commute)
  ultimately show ?thesis using Cons by simp
qed simp

lemma Math_min_eq: "xs \<noteq> [] \<Longrightarrow> Math_min xs = Min (set xs)"
proof (cases xs)
  case (Cons a list)
  have "fold min list a = Min (set (a # list))" by (rule Min.set_eq_fold [symmetric])
  moreover have "foldl min a list = fold min list a"
    by (simp add: foldl_conv_fold min.commute)
  ultimately show ?thesis using Cons by simp
qed simp

lemma rec_min:
  "vegs \<noteq> [] \<Longrightarrow>
     minT (rec_temperature (getTransportRecommendation vegs)) = max 0 (minTempOf vegs)"
  by (simp add: getTransportRecommendation_def Let_def Math_max_eq minTempOf_def)

lemma rec_max:
  "vegs \<noteq> [] \<Longrightarrow>
     maxT (rec_temperature (getTransportRecommendation vegs)) =
       (if minTempOf vegs < maxTempOf vegs then maxTempOf vegs else minTempOf vegs + 2)"
  by (simp add: getTransportRecommendation_def Let_def Math_max_eq Math_min_eq
        minTempOf_def maxTempOf_def)

text \<open>
  C2, as stated, fails for onions (0 to 4 degrees) with potatoes (4 to 8 degrees): the
  common range is the single point 4, which is not inverted, yet the reported maximum
  is 6.
\<close>

theorem transport_envelope_counterexample:
  "[onions, potatoes] \<noteq> [] \<and>
   \<not> (minT (rec_temperature (getTransportRecommendation [onions, potatoes])) =
        minTempOf [onions, potatoes] \<and>
      maxT (rec_temperature (getTransportRecommendation [onions, potatoes])) =
        (if maxTempOf [onions, potatoes] < minTempOf [onions, potatoes]
         then minTempOf [onions, potatoes] + 2 else maxTempOf [onions, potatoes]))"
  by (simp add: getTransportRecommendation_def onions_def potatoes_def mkVegetable_def
        minTempOf_def maxTempOf_def)

text \<open>
  C2, amended. For a non-empty Load Model the reported minimum is the largest
  \<open>idealTemp.min\<close> clamped below at 0, and the reported maximum is the smallest
  \<open>idealTemp.max\<close> when that is strictly above the largest \<open>idealTemp.min\<close>; otherwise
  (inverted or degenerate range) it is the largest \<open>idealTemp.min\<close>, unclamped, plus 2.
\<close>

theorem transport_envelope:
  "vegs \<noteq> [] \<Longrightarrow>
     minT (rec_temperature (getTransportRecommendation vegs)) = max 0 (minTempOf vegs) \<and>
     maxT (rec_temperature (getTransportRecommendation vegs)) =
       (if minTempOf vegs < maxTempOf vegs then maxTempOf vegs else minTempOf vegs + 2)"
  by (simp add: rec_min rec_max)

theorem transport_envelope_witness:
  "[onions, potatoes] \<noteq> [] \<and>
   rec_temperature (getTransportRecommendation [onions, potatoes]) = \<lparr>minT = 4, maxT = 6\<rparr>"
  using transport_envelope [of "[onions, potatoes]"]
  by (simp add: onions_def potatoes_def mkVegetable_def minTempOf_def maxTempOf_def)

text \<open>
  C9. For a non-empty Load Model the reported minimum temperature is
  \<open>max(0, max over items of idealTemp.min)\<close>, hence never negative.
\<close>

theorem transport_min_clamped:
  "vegs \<noteq> [] \<Longrightarrow>
     minT (rec_temperature (getTransportRecommendation vegs)) = max 0 (minTempOf vegs) \<and>
     0 \<le> minT (rec_temperature (getTransportRecommendation vegs))"
  by (simp add: rec_min)

theorem transport_min_clamped_witness:
  "[frozenPeas] \<noteq> [] \<and> minTempOf [frozenPeas] = - 18 \<and>
   minT (rec_temperature (getTransportRecommendation [frozenPeas])) = 0"
  using transport_min_clamped [of "[frozenPeas]"]
  by (simp add: frozenPeas_def mkVegetable_def minTempOf_def)

section \<open>Aggregate compatibility status\<close>

lemma loop_j_iff:
  "loop_j vegs i j \<longleftrightarrow>
     (\<exists>k. j \<le> k \<and> k < length vegs \<and> ethyleneConflict (vegs ! i) (vegs ! k))"
proof (induction vegs i j rule: loop_j.induct)
  case (1 vegs i j)
  show ?case
  proof (cases "j < length vegs")
    case False
    then show ?thesis by (subst loop_j.simps) auto
  next
    case True
    show ?thesis
    proof (cases "ethyleneConflict (vegs ! i) (vegs ! j)")
      case c: True
      with True show ?thesis by (subst loop_j.simps) auto
    next
      case c: False
      have "loop_j vegs i j = loop_j vegs i (j + 1)"
        using True c by (subst loop_j.simps) simp
      also have "\<dots> \<longleftrightarrow>
          (\<exists>k. j + 1 \<le> k \<and> k < length vegs \<and> ethyleneConflict (vegs ! i) (vegs ! k))"
        using "1.IH" [OF True c] .
      also have "\<dots> \<longleftrightarrow>
          (\<exists>k. j \<le> k \<and> k < length vegs \<and> ethyleneConflict (vegs ! i) (vegs ! k))"
        using c by (metis Suc_eq_plus1 Suc_leI le_neq_implies_less Suc_leD)
      finally show ?thesis .
    qed
  qed
qed

lemma loop_i_iff:
  "loop_i vegs i \<longleftrightarrow>
     (\<exists>a b. i \<le> a \<and> a < b \<and> b < length vegs \<and> ethyleneConflict (vegs ! a) (vegs ! b))"
proof (induction vegs i rule: loop_i.induct)
  case (1 vegs i)
  show ?case
  proof (cases "i < length vegs")
    case False
    then show ?thesis by (subst loop_i.simps) auto
  next
    case True
    show ?thesis
    proof (cases "loop_j vegs i (i + 1)")
      case c: True
      then obtain k where "i + 1 \<le> k" "k < length vegs" "ethyleneConflict (vegs ! i) (vegs ! k)"
        unfolding loop_j_iff by blast
      then have "i < k" by simp
      note k = this \<open>k < length vegs\<close> \<open>ethyleneConflict (vegs ! i) (vegs ! k)\<close>
      have "\<exists>a b. i \<le> a \<and> a < b \<and> b < length vegs \<and> ethyleneConflict (vegs ! a) (vegs ! b)"
        using k by blast
      with True c show ?thesis by (subst loop_i.simps) simp
    next
      case c: False
      then have nc: "\<And>k. i < k \<Longrightarrow> k < length vegs \<Longrightarrow> \<not> ethyleneConflict (vegs ! i) (vegs ! k)"
        unfolding loop_j_iff by auto
      have "loop_i vegs i = loop_i vegs (i + 1)"
        using True c by (subst loop_i.simps) simp
      also have "\<dots> \<longleftrightarrow>
          (\<exists>a b. i + 1 \<le> a \<and> a < b \<and> b < length vegs \<and> ethyleneConflict (vegs ! a) (vegs ! b))"
        using "1.IH" [OF True c] .
      also have "\<dots> \<longleftrightarrow>
          (\<exists>a b. i \<le> a \<and> a < b \<and> b < length vegs \<and> ethyleneConflict (vegs ! a) (vegs ! b))"
        using nc by (metis Suc_eq_plus1 Suc_leI le_neq_implies_less Suc_leD)
      finally show ?thesis .
    qed
  qed
qed

lemma loop_i_pairs: "loop_i vegs 0 \<longleftrightarrow> somePairConflicts vegs"
  unfolding loop_i_iff somePairConflicts_def Bex_def by simp blast

lemma status_char:
  "fst (getCompatibilityStatus vegs) =
     (if length vegs < 2 then neutral
      else if somePairConflicts vegs then incompatible else compatible)"
  by (simp add: getCompatibilityStatus_def loop_i_pairs)

lemma ethyleneConflict_temp:
  "ethyleneConflict (v\<lparr>idealTemp := s\<rparr>) (w\<lparr>idealTemp := t\<rparr>) = ethyleneConflict v w"
  by (simp add: ethyleneConflict_def)

lemma somePairConflicts_temp:
  "somePairConflicts (map (\<lambda>v. v\<lparr>idealTemp := t v\<rparr>) vegs) = somePairConflicts vegs"
proof -
  have "ethyleneConflict (map (\<lambda>v. v\<lparr>idealTemp := t v\<rparr>) vegs ! i)
          (map (\<lambda>v. v\<lparr>idealTemp := t v\<rparr>) vegs ! j) =
        ethyleneConflict (vegs ! i) (vegs ! j)" if "i < j" "j < length vegs" for i j
    using that by (simp add: ethyleneConflict_temp)
  then show ?thesis unfolding somePairConflicts_def by auto
qed

text \<open>
  C4. The aggregate status is never incompatible for fewer than two items; for two or
  more items it is incompatible exactly when some pair of items has an ethylene
  conflict. Temperature ranges play no part: without an ethylene conflict the status is
  not incompatible, and replacing the temperature range of every item by any other
  leaves the status as it is.
\<close>

theorem aggregate_status:
  "(length vegs < 2 \<longrightarrow> fst (getCompatibilityStatus vegs) \<noteq> incompatible) \<and>
   (2 \<le> length vegs \<longrightarrow>
      (fst (getCompatibilityStatus vegs) = incompatible \<longleftrightarrow> somePairConflicts vegs)) \<and>
   (\<not> somePairConflicts vegs \<longrightarrow> fst (getCompatibilityStatus vegs) \<noteq> incompatible) \<and>
   fst (getCompatibilityStatus (map (\<lambda>v. v\<lparr>idealTemp := t v\<rparr>) vegs)) =
     fst (getCompatibilityStatus vegs)"
  by (simp add: status_char somePairConflicts_temp)

theorem aggregate_status_witness:
  "fst (getCompatibilityStatus [tomatoes]) \<noteq> incompatible \<and>
   somePairConflicts [tomatoes, cabbage, eggplant] \<and>
   fst (getCompatibilityStatus [tomatoes, cabbage, eggplant]) = incompatible \<and>
   temperatureConflict tomatoes cabbage \<and> \<not> somePairConflicts [tomatoes, cabbage] \<and>
   fst (getCompatibilityStatus [tomatoes, cabbage]) \<noteq> incompatible"
proof -
  have a: "somePairConflicts [tomatoes, cabbage, eggplant]"
    by (simp add: somePairConflicts_def ethyleneConflict_def tomatoes_def cabbage_def
          eggplant_def mkVegetable_def atLeastLessThanSuc)
  have b: "\<not> somePairConflicts [tomatoes, cabbage]"
    by (simp add: somePairConflicts_def ethyleneConflict_def tomatoes_def cabbage_def
          mkVegetable_def atLeastLessThanSuc)
  have c: "temperatureConflict tomatoes cabbage"
    by (simp add: temperatureConflict_def tomatoes_def cabbage_def mkVegetable_def)
  show ?thesis
    using aggregate_status [of "[tomatoes]"] aggregate_status [of "[tomatoes, cabbage, eggplant]"]
      aggregate_status [of "[tomatoes, cabbage]"] a b c
    by simp
qed

section \<open>Impact Estimator\<close>

lemma foldl_add_mono:
  fixes a b :: rat
  assumes "a \<le> b" "\<And>v. v \<in> set xs \<Longrightarrow> f v \<le> g v"
  shows "foldl (\<lambda>t v. t + f v) a xs \<le> foldl (\<lambda>t v. t + g v) b xs"
  using assms
proof (induction xs arbitrary: a b)
  case Nil
  then show ?case by simp
next
  case (Cons x xs)
  have "a + f x \<le> b + g x" using Cons.prems by (simp add: add_mono)
  then show ?case using Cons by simp
qed

lemma wasteMultiplier_ge: "0.25 \<le> wasteMultiplier vegs v"
  by (simp add: wasteMultiplier_def Let_def)

lemma waste_le:
  assumes "\<forall>v \<in> set vegs. 0 \<le> quantity v"
  shows "optimizedWaste vegs \<le> baselineWaste vegs"
  unfolding optimizedWaste_def baselineWaste_def
proof (rule foldl_add_mono)
  fix v assume "v \<in> set vegs"
  then have q: "(0::rat) \<le> of_int (quantity v)" using assms by simp
  have "(0.10::rat) \<le> min (wasteMultiplier vegs v) 0.70"
    using wasteMultiplier_ge [of vegs v] by simp
  then show "of_int (quantity v) * (0.10::rat) \<le> of_int (quantity v) * min (wasteMultiplier vegs v) 0.70"
    using q by (rule mult_left_mono)
qed simp

text \<open>
  C5. For a non-empty Load Model with no negative quantity, the optimized waste units
  (sum of \<open>quantity * 0.10\<close>) are at most the baseline waste units (sum of
  \<open>quantity * min(multiplier, 0.70)\<close>): every baseline multiplier is at least 0.25, so
  every capped multiplier lies between 0.25 and 0.70.
\<close>

theorem optimized_le_baseline:
  assumes "vegs \<noteq> []" "\<forall>v \<in> set vegs. 0 \<le> quantity v"
  shows "optimizedWaste vegs \<le> baselineWaste vegs \<and>
         (\<forall>v. 0.25 \<le> min (wasteMultiplier vegs v) 0.70 \<and> min (wasteMultiplier vegs v) 0.70 \<le> 0.70)"
proof -
  have "0.25 \<le> min (wasteMultiplier vegs v) 0.70 \<and> min (wasteMultiplier vegs v) 0.70 \<le> 0.70" for v
    using wasteMultiplier_ge [of vegs v] by (simp add: min_def)
  with waste_le [OF assms(2)] show ?thesis by blast
qed

theorem optimized_le_baseline_witness:
  "[tomatoes, eggplant] \<noteq> [] \<and> 0 \<le> quantity tomatoes \<and> 0 \<le> quantity eggplant \<and>
   optimizedWaste [tomatoes, eggplant] = 1 / 5 \<and>
   optimizedWaste [tomatoes, eggplant] \<le> baselineWaste [tomatoes, eggplant]"
proof -
  have h: "\<forall>v \<in> set [tomatoes, eggplant]. 0 \<le> quantity v"
    by (simp add: tomatoes_def eggplant_def mkVegetable_def)
  have "optimizedWaste [tomatoes, eggplant] = 1 / 5"
    by (simp add: optimizedWaste_def tomatoes_def eggplant_def mkVegetable_def)
  with h optimized_le_baseline [of "[tomatoes, eggplant]"] show ?thesis by simp
qed

text \<open>
  C3, as stated, fails for a load of carrots alone (shelf life 21 days): the baseline
  figure is 14.7 and the optimized figure 25.2, so baseline minus optimized is -10.5,
  while the reported extension is +10.5.
\<close>

theorem shelf_life_saving_counterexample:
  "[carrots] \<noteq> [] \<and>
   shelfLifeExtension (savings (calculateImpact [carrots] 100)) \<noteq>
     shelfLifeDays (withoutShelfLife (calculateImpact [carrots] 100)) -
     shelfLifeDays (withShelfLife (calculateImpact [carrots] 100))"
  by (simp add: calculateImpact_def avgShelfLife_def carrots_def mkVegetable_def Let_def)

text \<open>
  C3, amended. For a non-empty Load Model whose 0.7-fold average shelf life is at least
  one day, the baseline figure is \<open>max(1, 0.7 * average)\<close>, the optimized figure is
  \<open>1.2 * average\<close>, and the reported shelf-life extension is the optimized figure minus
  the baseline figure.
\<close>

theorem shelf_life_extension:
  assumes "vegs \<noteq> []" "1 \<le> avgShelfLife vegs * 0.7"
  shows "shelfLifeDays (withoutShelfLife (calculateImpact vegs unitCost)) =
           max 1 (avgShelfLife vegs * 0.7) \<and>
         shelfLifeDays (withShelfLife (calculateImpact vegs unitCost)) = avgShelfLife vegs * 1.2 \<and>
         shelfLifeExtension (savings (calculateImpact vegs unitCost)) =
           shelfLifeDays (withShelfLife (calculateImpact vegs unitCost)) -
           shelfLifeDays (withoutShelfLife (calculateImpact vegs unitCost))"
  using assms by (simp add: calculateImpact_def Let_def max_def)

theorem shelf_life_extension_witness:
  "[carrots] \<noteq> [] \<and> 1 \<le> avgShelfLife [carrots] * 0.7 \<and>
   shelfLifeExtension (savings (calculateImpact [carrots] 100)) = 126 / 5 - 147 / 10"
proof -
  have a: "avgShelfLife [carrots] = 21"
    by (simp add: avgShelfLife_def carrots_def mkVegetable_def)
  have b: "(1::rat) \<le> avgShelfLife [carrots] * 0.7" unfolding a by simp
  show ?thesis
    using shelf_life_extension [of "[carrots]" 100] b by (simp add: a)
qed

text \<open>
  Below that threshold the extension is still computed from the unfloored
  \<open>0.7 * average\<close>: for a single item that keeps one day the figures are 1 and 1.2 days
  and the extension is 0.5 days.
\<close>

lemma shelf_life_floor_gap:
  "shelfLifeDays (withoutShelfLife (calculateImpact [sprouts] 100)) = 1 \<and>
   shelfLifeDays (withShelfLife (calculateImpact [sprouts] 100)) = 6 / 5 \<and>
   shelfLifeExtension (savings (calculateImpact [sprouts] 100)) = 1 / 2"
  by (simp add: calculateImpact_def avgShelfLife_def sprouts_def mkVegetable_def Let_def)

section \<open>Truck quantity\<close>

lemma ceilDiv_eq: "ceilDiv n capacity = - (- n div capacity)"
  unfolding ceilDiv_def by (rule ceiling_divide_eq_div)

lemma ceilDiv_pos: "1 \<le> n \<Longrightarrow> 0 < capacity \<Longrightarrow> 1 \<le> ceilDiv n capacity"
  unfolding ceilDiv_def by (simp add: one_le_ceiling)

lemma capacity_pos: "0 < capacityBySize sz"
  by (cases sz) simp_all

text \<open>
  C7, as stated, fails on the empty Load Model: its total quantity is 0, so
  \<open>ceil(0 / capacity)\<close> is 0, but the derived truck quantity is 1.
\<close>

theorem truck_quantity_counterexample:
  "autoTruckQuantity defaultMeta \<and> getTotalQuantity [] = 0 \<and>
   truckQuantityValue [] defaultMeta \<noteq>
     ceilDiv (getTotalQuantity []) (capacityBySize (truckSize defaultMeta))"
  by (simp add: truckQuantityValue_def defaultMeta_def getTotalQuantity_def ceilDiv_def)

text \<open>
  C7, amended. With \<open>autoTruckQuantity\<close> set, the derived truck quantity is
  \<open>max(1, ceil(totalQuantity / capacity))\<close>, with capacities 100, 200 and 400 for the
  small, medium and large truck, and the total capacity is the unit capacity times that
  number. It equals \<open>ceil(totalQuantity / capacity)\<close> for every Load Model whose total
  quantity is at least 1.
\<close>

theorem truck_quantity:
  assumes "autoTruckQuantity meta"
  shows "truckQuantityValue vegs meta =
           max 1 (ceilDiv (getTotalQuantity vegs) (capacityBySize (truckSize meta))) \<and>
         getTotalCapacity vegs meta = capacityBySize (truckSize meta) * truckQuantityValue vegs meta \<and>
         capacityBySize small = 100 \<and> capacityBySize medium_size = 200 \<and>
         capacityBySize large = 400 \<and>
         (1 \<le> getTotalQuantity vegs \<longrightarrow>
            truckQuantityValue vegs meta =
              ceilDiv (getTotalQuantity vegs) (capacityBySize (truckSize meta)))"
proof -
  have a: "truckQuantityValue vegs meta =
      max 1 (ceilDiv (getTotalQuantity vegs) (capacityBySize (truckSize meta)))"
    using assms by (simp add: truckQuantityValue_def ceilDiv_def)
  have b: "getTotalCapacity vegs meta = capacityBySize (truckSize meta) * truckQuantityValue vegs meta"
    using assms by (simp add: truckQuantityValue_def getTotalCapacity_def)
  have c: "truckQuantityValue vegs meta =
      ceilDiv (getTotalQuantity vegs) (capacityBySize (truckSize meta))"
    if "1 \<le> getTotalQuantity vegs"
    using ceilDiv_pos [OF that capacity_pos, of "truckSize meta"] unfolding a by simp
  from a b c show ?thesis by simp
qed

theorem truck_quantity_witness:
  "autoTruckQuantity defaultMeta \<and> getTotalQuantity [bulkPotatoes] = 250 \<and>
   truckQuantityValue [bulkPotatoes] defaultMeta = 2 \<and>
   getTotalCapacity [bulkPotatoes] defaultMeta = 400"
proof -
  have q: "getTotalQuantity [bulkPotatoes] = 250"
    by (simp add: getTotalQuantity_def bulkPotatoes_def mkVegetable_def)
  have m: "autoTruckQuantity defaultMeta" "truckSize defaultMeta = medium_size"
    by (simp_all add: defaultMeta_def)
  show ?thesis
    using truck_quantity [OF m(1), of "[bulkPotatoes]"] m
    by (simp add: q ceilDiv_eq)
qed

section \<open>Load Model mutations\<close>

lemma updateQuantity_positive: "v \<in> set (updateQuantity vegs i c) \<Longrightarrow> 1 \<le> quantity v"
  by (auto simp: updateQuantity_def)

lemma addVegetable_cases:
  "addVegetable vegs sel nid = vegs \<or>
   (\<exists>w. addVegetable vegs sel nid = vegs @ [w] \<and> quantity w = 1 \<and> veg_id w = nid \<and> name w = sel)"
proof (cases "map_of VEGETABLE_DATABASE sel")
  case None
  then show ?thesis by (simp add: addVegetable_def)
next
  case (Some d)
  then have "(sel, d) \<in> set VEGETABLE_DATABASE" by (rule map_of_SomeD)
  then have "data_name d = sel"
    unfolding VEGETABLE_DATABASE_def entry_def by auto
  with Some show ?thesis by (simp add: addVegetable_def)
qed

lemma updateQuantity_char:
  assumes "\<forall>v \<in> set vegs. 1 \<le> quantity v"
  shows "updateQuantity vegs i c =
           map (\<lambda>v. if veg_id v = i then v\<lparr>quantity := quantity v + c\<rparr> else v)
             (filter (\<lambda>v. veg_id v \<noteq> i \<or> 0 < quantity v + c) vegs)"
  using assms unfolding updateQuantity_def
  by (induction vegs) (auto simp: max_def)

lemma updateQuantity_ids:
  assumes "\<forall>v \<in> set vegs. 1 \<le> quantity v"
  shows "map veg_id (updateQuantity vegs i c) =
           map veg_id (filter (\<lambda>v. veg_id v \<noteq> i \<or> 0 < quantity v + c) vegs)"
  unfolding updateQuantity_char [OF assms] by (simp add: comp_def cong: map_cong)

lemma updateQuantity_others:
  assumes "\<forall>v \<in> set vegs. 1 \<le> quantity v"
  shows "filter (\<lambda>v. veg_id v \<noteq> i) (updateQuantity vegs i c) = filter (\<lambda>v. veg_id v \<noteq> i) vegs"
  using assms unfolding updateQuantity_def
  by (induction vegs) (auto simp: max_def)

lemma updateQuantity_absent:
  assumes "\<forall>v \<in> set vegs. 1 \<le> quantity v" "i \<notin> veg_id ` set vegs"
  shows "updateQuantity vegs i c = vegs"
  using assms unfolding updateQuantity_def
  by (induction vegs) auto

text \<open>
  C6. From a Load Model in which every quantity is at least 1, \<open>addVegetable\<close> (which
  leaves the model as it is or appends one item of quantity 1) and \<open>updateQuantity\<close> with
  a change of +1 or -1 give a Load Model in which every quantity is at least 1 again.
  The items that remain after \<open>updateQuantity\<close> are, in order, exactly
  those that are not the target or whose new quantity is positive: a target whose
  quantity would reach 0 is removed.
\<close>

theorem quantity_invariant:
  assumes "\<forall>v \<in> set vegs. 1 \<le> quantity v" and "change = 1 \<or> change = - 1"
  shows "(\<forall>v \<in> set (addVegetable vegs sel nid). 1 \<le> quantity v) \<and>
         (addVegetable vegs sel nid = vegs \<or>
          (\<exists>w. addVegetable vegs sel nid = vegs @ [w] \<and> quantity w = 1)) \<and>
         (\<forall>v \<in> set (updateQuantity vegs i change). 1 \<le> quantity v) \<and>
         map veg_id (updateQuantity vegs i change) =
           map veg_id (filter (\<lambda>v. \<not> (veg_id v = i \<and> quantity v + change \<le> 0)) vegs)"
proof -
  have a: "\<forall>v \<in> set (addVegetable vegs sel nid). 1 \<le> quantity v"
    using addVegetable_cases [of vegs sel nid] assms(1) by auto
  have b: "\<forall>v \<in> set (updateQuantity vegs i change). 1 \<le> quantity v"
    by (simp add: updateQuantity_positive)
  have "filter (\<lambda>v. \<not> (veg_id v = i \<and> quantity v + change \<le> 0)) vegs =
        filter (\<lambda>v. veg_id v \<noteq> i \<or> 0 < quantity v + change) vegs"
    by (rule filter_cong) auto
  then have c: "map veg_id (updateQuantity vegs i change) =
           map veg_id (filter (\<lambda>v. \<not> (veg_id v = i \<and> quantity v + change \<le> 0)) vegs)"
    using updateQuantity_ids [OF assms(1), of i change] by (simp only:)
  have d: "addVegetable vegs sel nid = vegs \<or>
      (\<exists>w. addVegetable vegs sel nid = vegs @ [w] \<and> quantity w = 1)"
    using addVegetable_cases [of vegs sel nid] by blast
  from a b c d show ?thesis by blast
qed

theorem quantity_invariant_witness:
  "1 \<le> quantity tomatoes \<and> 1 \<le> quantity cabbage \<and>
   map veg_id (updateQuantity [tomatoes, cabbage] ''v3'' (- 1)) = [''v5''] \<and>
   list_all (\<lambda>v. 1 \<le> quantity v) (updateQuantity [tomatoes, cabbage] ''v3'' (- 1)) \<and>
   list_all (\<lambda>v. 1 \<le> quantity v) (addVegetable [tomatoes, cabbage] ''Onions'' ''v1'')"
proof -
  have h: "\<forall>v \<in> set [tomatoes, cabbage]. 1 \<le> quantity v"
    by (simp add: tomatoes_def cabbage_def mkVegetable_def)
  show ?thesis
    using quantity_invariant [OF h, of "- 1" "''Onions''" "''v1''" "''v3''"] h
    by (simp add: list_all_iff tomatoes_def cabbage_def mkVegetable_def)
qed

text \<open>
  C10. On a Load Model in which every quantity is at least 1, \<open>updateQuantity\<close> keeps the
  items whose id is not the target as they are and in their order, the ids of the
  result are the ids of the input in their order without the targets that reach 0, and
  when no item has the target id the Load Model is returned unchanged.
\<close>

theorem updateQuantity_frame:
  assumes "\<forall>v \<in> set vegs. 1 \<le> quantity v"
  shows "filter (\<lambda>v. veg_id v \<noteq> i) (updateQuantity vegs i change) =
           filter (\<lambda>v. veg_id v \<noteq> i) vegs \<and>
         map veg_id (updateQuantity vegs i change) =
           map veg_id (filter (\<lambda>v. veg_id v \<noteq> i \<or> 0 < quantity v + change) vegs) \<and>
         (i \<notin> veg_id ` set vegs \<longrightarrow> updateQuantity vegs i change = vegs)"
  using updateQuantity_others [OF assms] updateQuantity_ids [OF assms]
    updateQuantity_absent [OF assms]
  by blast

theorem updateQuantity_frame_witness:
  "1 \<le> quantity tomatoes \<and> 1 \<le> quantity cabbage \<and> 1 \<le> quantity eggplant \<and>
   filter (\<lambda>v. veg_id v \<noteq> ''v5'') (updateQuantity [tomatoes, cabbage, eggplant] ''v5'' 3) =
     [tomatoes, eggplant] \<and>
   ''v9'' \<notin> veg_id ` set [tomatoes, cabbage, eggplant] \<and>
   updateQuantity [tomatoes, cabbage, eggplant] ''v9'' (- 1) = [tomatoes, cabbage, eggplant]"
proof -
  have h: "\<forall>v \<in> set [tomatoes, cabbage, eggplant]. 1 \<le> quantity v"
    by (simp add: tomatoes_def cabbage_def eggplant_def mkVegetable_def)
  have n: "''v9'' \<notin> veg_id ` set [tomatoes, cabbage, eggplant]"
    by (simp add: tomatoes_def cabbage_def eggplant_def mkVegetable_def)
  have f: "filter (\<lambda>v. veg_id v \<noteq> ''v5'') [tomatoes, cabbage, eggplant] = [tomatoes, eggplant]"
    by (simp add: tomatoes_def cabbage_def eggplant_def mkVegetable_def)
  show ?thesis
    using updateQuantity_frame [OF h, of "''v5''" 3]
      updateQuantity_frame [OF h, of "''v9''" "- 1"] h n f
    by simp
qed

section \<open>Layout Heuristic\<close>

text \<open>The grouping step keeps the keys distinct and adds the item to exactly one group.\<close>

lemma push_existing:
  assumes "distinct (map fst gs)" "k \<in> fst ` set gs"
  shows "mset (concat (map snd (map (\<lambda>(k', vs). if k' = k then (k', vs @ [x]) else (k', vs)) gs))) =
         mset (concat (map snd gs)) + {#x#}"
  using assms
proof (induction gs)
  case Nil
  then show ?case by simp
next
  case (Cons g gs)
  obtain k' vs where g: "g = (k', vs)" by (cases g)
  show ?case
  proof (cases "k' = k")
    case True
    then have "k \<notin> fst ` set gs" using Cons.prems(1) g by auto
    then have "map (\<lambda>(k', vs). if k' = k then (k', vs @ [x]) else (k', vs)) gs = gs"
      by (induction gs) auto
    then show ?thesis using True g by simp
  next
    case False
    then have "k \<in> fst ` set gs" using Cons.prems(2) g by auto
    moreover have "distinct (map fst gs)" using Cons.prems(1) by simp
    ultimately show ?thesis using Cons.IH False g by simp
  qed
qed

lemma push_keys:
  "map fst (map (\<lambda>(k', vs). if k' = k then (k', vs @ [x]) else (k', vs)) gs) = map fst gs"
  by (induction gs) auto

lemma groupStep_keys:
  "distinct (map fst gs) \<Longrightarrow> distinct (map fst (groupStep gs v))"
  unfolding groupStep_def Let_def push_keys
  by (auto simp: map_of_eq_None_iff)

lemma groupStep_items:
  assumes "distinct (map fst gs)"
  shows "mset (concat (map snd (groupStep gs v))) = mset (concat (map snd gs)) + {#v#}"
proof (cases "map_of gs (tempKey v) = None")
  case True
  then have "tempKey v \<notin> fst ` set gs" by (simp add: map_of_eq_None_iff)
  then have d: "distinct (map fst (gs @ [(tempKey v, [])]))" using assms by simp
  have "tempKey v \<in> fst ` set (gs @ [(tempKey v, [])])" by simp
  from push_existing [OF d this, of v] True show ?thesis
    by (simp add: groupStep_def Let_def)
next
  case False
  then have "tempKey v \<in> fst ` set gs" by (simp add: map_of_eq_None_iff)
  from push_existing [OF assms this, of v] False show ?thesis
    by (simp add: groupStep_def Let_def)
qed

lemma foldl_groupStep:
  assumes "distinct (map fst gs)"
  shows "distinct (map fst (foldl groupStep gs vegs)) \<and>
         mset (concat (map snd (foldl groupStep gs vegs))) = mset (concat (map snd gs)) + mset vegs"
  using assms
proof (induction vegs arbitrary: gs)
  case Nil
  then show ?case by simp
next
  case (Cons v vegs)
  have "distinct (map fst (groupStep gs v))" using Cons.prems by (rule groupStep_keys)
  from Cons.IH [OF this] groupStep_items [OF Cons.prems, of v] show ?case by simp
qed

lemma temperatureGroups_items: "mset (concat (map snd (temperatureGroups vegs))) = mset vegs"
  using foldl_groupStep [of "[]" vegs] by (simp add: temperatureGroups_def)

lemma three_way_split:
  assumes "rolesExclusive vs"
  shows "mset (filter (\<lambda>v. ethyleneProduction v = high) vs) +
         mset (filter (\<lambda>v. ethyleneSensitivity v = high) vs) +
         mset (filter (\<lambda>v. ethyleneProduction v \<noteq> high \<and> ethyleneSensitivity v \<noteq> high) vs) = mset vs"
  using assms by (induction vs) (auto simp: rolesExclusive_def)

lemma zoneStep_items:
  assumes "rolesExclusive vs"
  shows "mset (zoneItems (fst (zoneStep (zones, n) (k, vs)))) = mset (zoneItems zones) + mset vs"
proof -
  let ?others = "filter (\<lambda>v. ethyleneProduction v \<noteq> high \<and> ethyleneSensitivity v \<noteq> high) vs"
  have e: "?others = [] \<Longrightarrow>
        mset (filter (\<lambda>v. ethyleneProduction v = high) vs) +
         mset (filter (\<lambda>v. ethyleneSensitivity v = high) vs) = mset vs"
    using three_way_split [OF assms] by simp
  show ?thesis
    using three_way_split [OF assms] e
    by (auto simp: zoneStep_def Let_def zoneItems_def mkZone_def ac_simps simp del: mset_filter)
qed

lemma foldl_zoneStep:
  assumes "\<forall>g \<in> set gs. rolesExclusive (snd g)"
  shows "mset (zoneItems (fst (foldl zoneStep st gs))) =
         mset (zoneItems (fst st)) + mset (concat (map snd gs))"
  using assms
proof (induction gs arbitrary: st)
  case Nil
  then show ?case by simp
next
  case (Cons g gs)
  obtain zones n where st: "st = (zones, n)" by (cases st)
  obtain k vs where g: "g = (k, vs)" by (cases g)
  have "rolesExclusive vs" using Cons.prems g by simp
  from zoneStep_items [OF this, of zones n k] Cons show ?case
    by (simp add: st g)
qed

text \<open>
  When no item is both a high producer and highly sensitive, the zones hold every item
  of the Load Model exactly once.
\<close>

lemma layout_partition_exclusive:
  assumes "rolesExclusive vegs"
  shows "mset (zoneItems (optimizeLoading vegs)) = mset vegs"
proof (cases "vegs = []")
  case True
  then show ?thesis by (simp add: optimizeLoading_def zoneItems_def)
next
  case False
  have "\<forall>g \<in> set (temperatureGroups vegs). rolesExclusive (snd g)"
  proof
    fix g assume g: "g \<in> set (temperatureGroups vegs)"
    have "set (snd g) \<subseteq> set (concat (map snd (temperatureGroups vegs)))" using g by auto
    also have "\<dots> = set vegs"
      using temperatureGroups_items [of vegs] by (metis set_mset_mset)
    finally show "rolesExclusive (snd g)"
      using assms by (auto simp: rolesExclusive_def list_all_iff)
  qed
  from foldl_zoneStep [OF this, of "([], 0)"] False show ?thesis
    by (simp add: optimizeLoading_def temperatureGroups_items zoneItems_def)
qed

text \<open>
  C1. The partition property fails on the code: an item that is both a high ethylene
  producer and highly ethylene sensitive passes the producer filter and the sensitive
  filter, so a Load Model holding just that item is laid out as two zones that both
  contain it.
\<close>

theorem layout_duplicates_item:
  "\<not> rolesExclusive [highHigh] \<and>
   map vegetables (optimizeLoading [highHigh]) = [[highHigh], [highHigh]] \<and>
   mset (zoneItems (optimizeLoading [highHigh])) \<noteq> mset [highHigh]"
  by (simp add: optimizeLoading_def temperatureGroups_def groupStep_def zoneStep_def Let_def
        mkZone_def zoneItems_def rolesExclusive_def highHigh_def mkVegetable_def)

end
